theory Spec2Isabelle
  imports Main "HOL-Library.Word" "HOL-Library.AList"
begin

section \<open>Rank/Pricing engine: \<open>getDownloadCost\<close> (community/app.js, lines 273-279)\<close>

text \<open>
  The JavaScript values that can flow through \<open>getDownloadCost\<close>: the numbers of the two
  tables (small integers, exact in a double), \<open>NaN\<close>, \<open>undefined\<close> (a missing property),
  and the members every object literal inherits from \<open>Object.prototype\<close> (functions, and
  the prototype object itself behind \<open>__proto__\<close>).
\<close>

datatype jsval = JNum int | JNaN | JUndefined | JFunction | JObject

text \<open>The two object literals of the function body, as their own properties in source order.\<close>

definition baseCosts :: "(string \<times> int) list" where
  "baseCosts = [(''normal'', 3), (''premium'', 8), (''exclusive'', 15)]"

definition discounts :: "(string \<times> int) list" where
  "discounts = [(''newcomer'', 0), (''player'', 1), (''contributor'', 1),
                (''artist'', 2), (''star'', 3), (''legend'', 99)]"

text \<open>
  The function-valued properties of \<open>Object.prototype\<close> (ECMAScript, with the legacy
  accessors browsers ship). An object literal has \<open>Object.prototype\<close> as its prototype, so
  \<open>obj[key]\<close> finds them when \<open>key\<close> is not an own property.
\<close>

definition object_prototype_methods :: "string list" where
  "object_prototype_methods =
     [''constructor'', ''hasOwnProperty'', ''isPrototypeOf'', ''propertyIsEnumerable'',
      ''toLocaleString'', ''toString'', ''valueOf'',
      ''__defineGetter__'', ''__defineSetter__'', ''__lookupGetter__'', ''__lookupSetter__'']"

text \<open>
  \<open>obj[key]\<close> on an object literal whose own properties are \<open>tbl\<close>, for a key that is
  a string: an own property first, then the prototype, then \<open>undefined\<close>.
\<close>

definition get_property :: "(string \<times> int) list \<Rightarrow> string \<Rightarrow> jsval" where
  "get_property tbl key =
     (case map_of tbl key of
        Some n \<Rightarrow> JNum n
      | None \<Rightarrow>
          if key \<in> set object_prototype_methods then JFunction
          else if key = ''__proto__'' then JObject
          else JUndefined)"

text \<open>ToBoolean: \<open>0\<close>, \<open>NaN\<close> and \<open>undefined\<close> are falsy, objects and functions truthy.\<close>

fun truthy :: "jsval \<Rightarrow> bool" where
  "truthy (JNum n) = (n \<noteq> 0)"
| "truthy JNaN = False"
| "truthy JUndefined = False"
| "truthy JFunction = True"
| "truthy JObject = True"

text \<open>\<open>a || b\<close>.\<close>

definition js_or :: "jsval \<Rightarrow> jsval \<Rightarrow> jsval" where
  "js_or a b = (if truthy a then a else b)"

text \<open>
  ToNumber, with \<open>None\<close> for \<open>NaN\<close>: \<open>undefined\<close> converts to \<open>NaN\<close>; a function and
  \<open>Object.prototype\<close> convert through their string forms, which are not numeric.
\<close>

fun to_number :: "jsval \<Rightarrow> int option" where
  "to_number (JNum n) = Some n"
| "to_number JNaN = None"
| "to_number JUndefined = None"
| "to_number JFunction = None"
| "to_number JObject = None"

text \<open>\<open>a - b\<close> and \<open>Math.max(a, b)\<close>: \<open>NaN\<close> as soon as one operand is.\<close>

definition js_sub :: "jsval \<Rightarrow> jsval \<Rightarrow> jsval" where
  "js_sub a b =
     (case (to_number a, to_number b) of
        (Some x, Some y) \<Rightarrow> JNum (x - y)
      | _ \<Rightarrow> JNaN)"

definition math_max :: "jsval \<Rightarrow> jsval \<Rightarrow> jsval" where
  "math_max a b =
     (case (to_number a, to_number b) of
        (Some x, Some y) \<Rightarrow> JNum (max x y)
      | _ \<Rightarrow> JNaN)"

definition getDownloadCost :: "string \<Rightarrow> string \<Rightarrow> jsval" where
  "getDownloadCost rank midiType =
     (let base = js_or (get_property baseCosts midiType) (JNum 3);
          discount = js_or (get_property discounts rank) (JNum 0)
      in math_max (JNum 0) (js_sub base discount))"

text \<open>\<open>a >= b\<close> on JavaScript values: false as soon as one operand converts to \<open>NaN\<close>.\<close>

definition js_ge :: "jsval \<Rightarrow> jsval \<Rightarrow> bool" where
  "js_ge a b =
     (case (to_number a, to_number b) of
        (Some x, Some y) \<Rightarrow> y \<le> x
      | _ \<Rightarrow> False)"

subsection \<open>The enumerations and tables of the specification\<close>

datatype tier = Normal | Premium | Exclusive

datatype rank = Newcomer | Player | Contributor | Artist | Star | Legend

text \<open>The strings by which the front end names tiers and ranks.\<close>

fun tier_name :: "tier \<Rightarrow> string" where
  "tier_name Normal = ''normal''"
| "tier_name Premium = ''premium''"
| "tier_name Exclusive = ''exclusive''"

fun rank_name :: "rank \<Rightarrow> string" where
  "rank_name Newcomer = ''newcomer''"
| "rank_name Player = ''player''"
| "rank_name Contributor = ''contributor''"
| "rank_name Artist = ''artist''"
| "rank_name Star = ''star''"
| "rank_name Legend = ''legend''"

text \<open>
  The tables as the specification words them (section 4.1): base cost per tier, discount
  per rank, and the price \<open>max(0, base - discount)\<close>.
\<close>

fun spec_base :: "tier \<Rightarrow> int" where
  "spec_base Normal = 3"
| "spec_base Premium = 8"
| "spec_base Exclusive = 15"

fun spec_discount :: "rank \<Rightarrow> int" where
  "spec_discount Newcomer = 0"
| "spec_discount Player = 1"
| "spec_discount Contributor = 1"
| "spec_discount Artist = 2"
| "spec_discount Star = 3"
| "spec_discount Legend = 99"

definition spec_price :: "tier \<Rightarrow> rank \<Rightarrow> int" where
  "spec_price t r = max 0 (spec_base t - spec_discount r)"

section \<open>The price on a card: \<open>createMidiCard\<close> (community/app.js, lines 243-246)\<close>

text \<open>
  The two fields of the server's JSON that the price depends on. \<open>None\<close> stands for a
  field that is missing or \<open>null\<close>.
\<close>

record user =
  user_rank :: "string option"
  user_name :: string

record midi =
  midi_id :: nat
  midi_type :: "string option"

text \<open>\<open>s || d\<close> on an optional string: a missing value and the empty string are falsy.\<close>

definition str_or :: "string option \<Rightarrow> string \<Rightarrow> string" where
  "str_or s d = (case s of None \<Rightarrow> d | Some x \<Rightarrow> if x = [] then d else x)"

text \<open>\<open>currentUser?.rank\<close>: \<open>undefined\<close> when nobody is logged in.\<close>

definition optional_rank :: "user option \<Rightarrow> string option" where
  "optional_rank cu = (case cu of None \<Rightarrow> None | Some u \<Rightarrow> user_rank u)"

text \<open>The first two statements of \<open>createMidiCard\<close>: the badge class and the cost shown.\<close>

definition card_typeClass :: "midi \<Rightarrow> string" where
  "card_typeClass m = str_or (midi_type m) ''normal''"

definition card_cost :: "user option \<Rightarrow> midi \<Rightarrow> jsval" where
  "card_cost cu m = getDownloadCost (str_or (optional_rank cu) ''newcomer'') (card_typeClass m)"

text \<open>The keys an object literal answers without owning them.\<close>

definition inherited_key :: "string \<Rightarrow> bool" where
  "inherited_key k = (k \<in> set object_prototype_methods \<or> k = ''__proto__'')"

section \<open>The client's session state (community/app.js, lines 8-14)\<close>

text \<open>
  What a token variable can hold: \<open>null\<close> (from \<open>localStorage.getItem\<close> on a missing key,
  or after \<open>logout\<close>), a string, or \<open>undefined\<close> (a field the server's JSON lacks).
\<close>

datatype jstok = TUndefined | TNull | TStr string

fun tok_truthy :: "jstok \<Rightarrow> bool" where
  "tok_truthy (TStr t) = (t \<noteq> [])"
| "tok_truthy TNull = False"
| "tok_truthy TUndefined = False"

text \<open>ToString, as \<open>localStorage.setItem\<close> and a template literal apply it.\<close>

fun tok_to_string :: "jstok \<Rightarrow> string" where
  "tok_to_string (TStr t) = t"
| "tok_to_string TNull = ''null''"
| "tok_to_string TUndefined = ''undefined''"

record client_state =
  currentUser :: "user option"
  accessToken :: jstok
  refreshToken :: jstok
  localStorage :: "string \<rightharpoonup> string"

subsection \<open>Requests, responses and effects\<close>

text \<open>
  A JavaScript string of user input is a sequence of UTF-16 code units.
\<close>

type_synonym jsstring = "16 word list"

text \<open>The paths the client requests, relative to \<open>API_BASE\<close>.\<close>

datatype api_path =
    AuthMe
  | AuthRefresh
  | MidiDownload nat
  | MidiRate nat
  | MidiComments nat
  | FilePath string

text \<open>The JSON bodies the client sends.\<close>

datatype req_body =
    NoBody
  | RefreshBody jstok
  | StarsBody int
  | ContentBody jsstring

record request =
  req_method :: string
  req_path :: api_path
  req_headers :: "(string \<times> string) list"
  req_body :: req_body

text \<open>
  The messages of the toasts, by the place that shows them (the texts are Vietnamese), or
  the text the server sent.
\<close>

datatype toast_msg =
    MsgLoginToDownload
  | MsgLoginToRate
  | MsgDownloadFailed
  | MsgCannotFetchFile
  | MsgConnectionError
  | MsgRated int
  | MsgRateFailed
  | MsgCommentSent
  | MsgCommentFailed
  | MsgLoggedOut
  | MsgServer string

datatype toast_type = Success | Error | Info

text \<open>
  What a handler does to the world outside the session state, in order. \<open>CallCheckAuth\<close>
  is the call \<open>checkAuth()\<close> that a handler starts and does not await: the state a
  handler returns is the state when the handler returns, and the continuation of the
  started \<open>checkAuth\<close> may reassign \<open>currentUser\<close> and the tokens afterwards.
  \<open>UpdateAuthUIThrows\<close> is a call \<open>updateAuthUI(user)\<close> that shows the user pane and the
  points and then throws at \<open>user.username[0].toUpperCase()\<close> (line 120), the username
  being empty.
\<close>

datatype effect =
    PreventDefault
  | Fetch request
  | Toast toast_msg toast_type
  | ShowLoginModal
  | UpdateAuthUI "user option"
  | UpdateAuthUIThrows user
  | SaveFile nat
  | HighlightStars int
  | InsertComment string jsstring
  | ConsoleError
  | CallCheckAuth

text \<open>
  What \<open>await fetch(...)\<close> followed by \<open>await response.json()\<close> can give: the fetch
  rejects; or a response arrives, with \<open>response.ok\<close> and a body that is not JSON (so
  \<open>response.json()\<close> rejects), the JSON \<open>null\<close> (so reading a field of it throws), or
  JSON data.
\<close>

datatype 'a body = BodyNotJson | BodyNull | BodyJson 'a

datatype 'a fetch_outcome = NetworkError | Response bool "'a body"

text \<open>The fields the client reads from the JSON bodies.\<close>

record refresh_data =
  access_token :: jstok
  refresh_token :: jstok

record download_data =
  dl_message :: string
  dl_file_path :: string
  dl_detail :: "string option"

record comment_data =
  cm_username :: string
  cm_content :: jsstring
  cm_detail :: "string option"

record rate_data =
  rt_detail :: "string option"

text \<open>The file request of a download: rejected, refused, or a blob (whose reading may throw).\<close>

datatype file_outcome = FileNetworkError | FileRefused | FileBlob bool

subsection \<open>\<open>fetchWithAuth\<close> (lines 557-568)\<close>

text \<open>
  The callers pass a method and a body and no headers of their own, so the headers are
  \<open>Content-Type\<close> and, only when \<open>accessToken\<close> is truthy, \<open>Authorization\<close>.
\<close>

definition fetchWithAuth :: "client_state \<Rightarrow> string \<Rightarrow> api_path \<Rightarrow> req_body \<Rightarrow> request" where
  "fetchWithAuth s method path b =
     \<lparr>req_method = method, req_path = path,
      req_headers =
        [(''Content-Type'', ''application/json'')] @
        (if tok_truthy (accessToken s)
         then [(''Authorization'', ''Bearer '' @ tok_to_string (accessToken s))]
         else []),
      req_body = b\<rparr>"

subsection \<open>\<open>refreshAccessToken\<close> (lines 85-107)\<close>

definition refresh_request :: "client_state \<Rightarrow> request" where
  "refresh_request s =
     \<lparr>req_method = ''POST'', req_path = AuthRefresh,
      req_headers = [(''Content-Type'', ''application/json'')],
      req_body = RefreshBody (refreshToken s)\<rparr>"

text \<open>
  \<open>localStorage.setItem(key, value)\<close> stores the value, or throws and stores nothing
  (the quota is exceeded, or the browser refuses the write).
\<close>

datatype write_outcome = Written | WriteThrows

definition setItem ::
  "write_outcome \<Rightarrow> string \<Rightarrow> string \<Rightarrow> (string \<rightharpoonup> string) \<Rightarrow> (string \<rightharpoonup> string) option" where
  "setItem w key v store = (case w of Written \<Rightarrow> Some (store(key \<mapsto> v)) | WriteThrows \<Rightarrow> None)"

text \<open>
  The arguments \<open>env\<close>, \<open>w1\<close> and \<open>w2\<close> are what the environment answers: the outcome of
  the request, and of the two writes to \<open>localStorage\<close> (lines 99 and 100). Everything
  from the request to the second write is inside the \<open>try\<close>; a throw is logged and the
  function falls through to \<open>return false\<close>. The two variables are assigned (lines 97
  and 98) before the writes, so a write that throws leaves them assigned.
\<close>

definition refreshAccessToken ::
  "refresh_data fetch_outcome \<Rightarrow> write_outcome \<Rightarrow> write_outcome \<Rightarrow> client_state
     \<Rightarrow> bool \<times> client_state \<times> effect list" where
  "refreshAccessToken env w1 w2 s =
     (if \<not> tok_truthy (refreshToken s) then (False, s, [])
      else
        (case env of
           NetworkError \<Rightarrow> (False, s, [Fetch (refresh_request s), ConsoleError])
         | Response ok b \<Rightarrow>
             if ok then
               (case b of
                  BodyNotJson \<Rightarrow> (False, s, [Fetch (refresh_request s), ConsoleError])
                | BodyNull \<Rightarrow> (False, s, [Fetch (refresh_request s), ConsoleError])
                | BodyJson d \<Rightarrow>
                    (let s1 = s\<lparr>accessToken := access_token d, refreshToken := refresh_token d\<rparr>
                     in case setItem w1 ''access_token'' (tok_to_string (accessToken s1))
                               (localStorage s1) of
                          None \<Rightarrow> (False, s1, [Fetch (refresh_request s), ConsoleError])
                        | Some st1 \<Rightarrow>
                            (case setItem w2 ''refresh_token'' (tok_to_string (refreshToken s1))
                                    st1 of
                               None \<Rightarrow>
                                 (False, s1\<lparr>localStorage := st1\<rparr>,
                                  [Fetch (refresh_request s), ConsoleError])
                             | Some st2 \<Rightarrow>
                                 (True, s1\<lparr>localStorage := st2\<rparr>,
                                  [Fetch (refresh_request s)]))))
             else (False, s, [Fetch (refresh_request s)])))"

subsection \<open>\<open>logout\<close> (lines 185-193) and the success branch of \<open>checkAuth\<close> (lines 67-69)\<close>

definition logout :: "client_state \<Rightarrow> client_state \<times> effect list" where
  "logout s =
     (s\<lparr>accessToken := TNull, refreshToken := TNull, currentUser := None,
        localStorage := (localStorage s) |` (- {''access_token'', ''refresh_token''})\<rparr>,
      [UpdateAuthUI None, Toast MsgLoggedOut Info])"

text \<open>
  \<open>checkAuth\<close> awaits the answer to \<open>/auth/me\<close>; when it is ok, the continuation stores
  the user it carries (line 68) and updates the navigation (line 69). Other handlers can
  run between the request and the continuation. With an empty username the update throws
  after the assignment; the \<open>catch\<close> of \<open>checkAuth\<close> logs it and calls
  \<open>updateAuthUI(null)\<close>.
\<close>

definition checkAuth_me_ok :: "user \<Rightarrow> client_state \<Rightarrow> client_state \<times> effect list" where
  "checkAuth_me_ok u s =
     (s\<lparr>currentUser := Some u\<rparr>,
      if user_name u = [] then [UpdateAuthUIThrows u, ConsoleError, UpdateAuthUI None]
      else [UpdateAuthUI (Some u)])"

subsection \<open>\<open>downloadMidi\<close> (lines 388-427)\<close>

text \<open>\<open>error.detail || fallback\<close> as the text of an error toast.\<close>

definition detail_or :: "string option \<Rightarrow> toast_msg \<Rightarrow> toast_msg" where
  "detail_or d fallback =
     (case d of None \<Rightarrow> fallback | Some t \<Rightarrow> if t = [] then fallback else MsgServer t)"

text \<open>The effects after an ok answer to the download request, up to the end of the \<open>try\<close>.\<close>

definition download_file :: "client_state \<Rightarrow> nat \<Rightarrow> download_data \<Rightarrow> file_outcome \<Rightarrow> effect list" where
  "download_file s midiId d fenv =
     [Toast (MsgServer (dl_message d)) Success,
      Fetch (fetchWithAuth s ''GET'' (FilePath (dl_file_path d)) NoBody)] @
     (case fenv of
        FileNetworkError \<Rightarrow> [ConsoleError, Toast MsgConnectionError Error]
      | FileRefused \<Rightarrow> [Toast MsgCannotFetchFile Error, CallCheckAuth]
      | FileBlob readable \<Rightarrow>
          if readable then [SaveFile midiId, CallCheckAuth]
          else [ConsoleError, Toast MsgConnectionError Error])"

definition downloadMidi ::
  "nat \<Rightarrow> download_data fetch_outcome \<Rightarrow> file_outcome \<Rightarrow> client_state
     \<Rightarrow> client_state \<times> effect list" where
  "downloadMidi midiId env fenv s =
     (case currentUser s of
        None \<Rightarrow> (s, [Toast MsgLoginToDownload Info, ShowLoginModal])
      | Some u \<Rightarrow>
          (s, Fetch (fetchWithAuth s ''POST'' (MidiDownload midiId) NoBody) #
              (case env of
                 NetworkError \<Rightarrow> [ConsoleError, Toast MsgConnectionError Error]
               | Response ok b \<Rightarrow>
                   (case b of
                      BodyNotJson \<Rightarrow> [ConsoleError, Toast MsgConnectionError Error]
                    | BodyNull \<Rightarrow> [ConsoleError, Toast MsgConnectionError Error]
                    | BodyJson d \<Rightarrow>
                        if ok then download_file s midiId d fenv
                        else [Toast (detail_or (dl_detail d) MsgDownloadFailed) Error]))))"

text \<open>The requests among the effects.\<close>

fun requests_of :: "effect list \<Rightarrow> request list" where
  "requests_of [] = []"
| "requests_of (Fetch r # es) = r # requests_of es"
| "requests_of (e # es) = requests_of es"

text \<open>\<open>headers[name]\<close> of a request.\<close>

definition header :: "request \<Rightarrow> string \<Rightarrow> string option" where
  "header r name = map_of (req_headers r) name"

subsection \<open>\<open>rateMidi\<close> (lines 429-455)\<close>

text \<open>
  The body of an ok answer is read and not used, so the JSON \<open>null\<close> is as good as data
  there; the body of a failure is read for its \<open>detail\<close>.
\<close>

definition rateMidi ::
  "nat \<Rightarrow> int \<Rightarrow> rate_data fetch_outcome \<Rightarrow> client_state \<Rightarrow> client_state \<times> effect list" where
  "rateMidi midiId stars env s =
     (case currentUser s of
        None \<Rightarrow> (s, [Toast MsgLoginToRate Info])
      | Some u \<Rightarrow>
          (s, Fetch (fetchWithAuth s ''POST'' (MidiRate midiId) (StarsBody stars)) #
              (case env of
                 NetworkError \<Rightarrow> [Toast MsgConnectionError Error]
               | Response ok b \<Rightarrow>
                   if ok then
                     (case b of
                        BodyNotJson \<Rightarrow> [Toast MsgConnectionError Error]
                      | BodyNull \<Rightarrow> [Toast (MsgRated stars) Success, HighlightStars stars]
                      | BodyJson d \<Rightarrow> [Toast (MsgRated stars) Success, HighlightStars stars])
                   else
                     (case b of
                        BodyNotJson \<Rightarrow> [Toast MsgConnectionError Error]
                      | BodyNull \<Rightarrow> [Toast MsgConnectionError Error]
                      | BodyJson d \<Rightarrow> [Toast (detail_or (rt_detail d) MsgRateFailed) Error]))))"

subsection \<open>\<open>addComment\<close> (lines 457-491)\<close>

text \<open>
  \<open>String.prototype.trim\<close> removes the white space and line terminators of ECMAScript
  from both ends.
\<close>

definition js_whitespace :: "16 word list" where
  "js_whitespace =
     [0x0009, 0x000A, 0x000B, 0x000C, 0x000D, 0x0020, 0x00A0, 0x1680,
      0x2000, 0x2001, 0x2002, 0x2003, 0x2004, 0x2005, 0x2006, 0x2007, 0x2008, 0x2009, 0x200A,
      0x2028, 0x2029, 0x202F, 0x205F, 0x3000, 0xFEFF]"

definition is_space :: "16 word \<Rightarrow> bool" where
  "is_space c = (c \<in> set js_whitespace)"

definition trim :: "jsstring \<Rightarrow> jsstring" where
  "trim v = rev (dropWhile is_space (rev (dropWhile is_space v)))"

text \<open>
  The handler reads the value of the input \<open>new-comment\<close> and, on success, clears it: the
  value is an argument and the new value a result. The page is taken to have the input
  and the comment list.
\<close>

definition comment_request :: "client_state \<Rightarrow> nat \<Rightarrow> jsstring \<Rightarrow> request" where
  "comment_request s midiId content =
     fetchWithAuth s ''POST'' (MidiComments midiId) (ContentBody content)"

definition addComment ::
  "nat \<Rightarrow> jsstring \<Rightarrow> comment_data fetch_outcome \<Rightarrow> client_state
     \<Rightarrow> client_state \<times> jsstring \<times> effect list" where
  "addComment midiId input_value env s =
     (let content = trim input_value in
      if content = [] then (s, input_value, [PreventDefault])
      else
        (case env of
           NetworkError \<Rightarrow>
             (s, input_value,
              [PreventDefault, Fetch (comment_request s midiId content),
               Toast MsgConnectionError Error])
         | Response ok b \<Rightarrow>
             (case b of
                BodyNotJson \<Rightarrow>
                  (s, input_value,
                   [PreventDefault, Fetch (comment_request s midiId content),
                    Toast MsgConnectionError Error])
              | BodyNull \<Rightarrow>
                  (s, input_value,
                   [PreventDefault, Fetch (comment_request s midiId content),
                    Toast MsgConnectionError Error])
              | BodyJson d \<Rightarrow>
                  if ok then
                    (s, [],
                     [PreventDefault, Fetch (comment_request s midiId content),
                      InsertComment (cm_username d) (cm_content d),
                      Toast MsgCommentSent Success, CallCheckAuth])
                  else
                    (s, input_value,
                     [PreventDefault, Fetch (comment_request s midiId content),
                      Toast (detail_or (cm_detail d) MsgCommentFailed) Error]))))"

subsection \<open>Sample sessions\<close>

text \<open>A logged-in session whose tokens are also in \<open>localStorage\<close>.\<close>

definition alice :: user where
  "alice = \<lparr>user_rank = Some ''player'', user_name = ''alice''\<rparr>"

definition session0 :: client_state where
  "session0 =
     \<lparr>currentUser = Some alice, accessToken = TStr ''a0'', refreshToken = TStr ''r0'',
      localStorage = [''access_token'' \<mapsto> ''a0'', ''refresh_token'' \<mapsto> ''r0'']\<rparr>"

text \<open>
  The session after \<open>logout\<close> ran between the \<open>/auth/me\<close> request of a \<open>checkAuth\<close> and
  its continuation, which then stored the user of the ok answer.
\<close>

definition session_after_race :: client_state where
  "session_after_race = fst (checkAuth_me_ok alice (fst (logout session0)))"

section \<open>The community back end, from the specification\<close>

text \<open>
  Modelled from the spec: the server behind \<open>/api\<close> (ledger, entitlement gate, token
  service, rating and comment store) is not among the sources, which hold only its client.
  The definitions of this section follow sections 3, 4.2 to 4.5 and 7 of the
  specification, operation by operation. An operation returns its result and the state
  after it, so that "no mutation" is a statement about the second component.
\<close>

datatype error = Unauthorized | NotFound | InvalidInput | InsufficientPoints

subsection \<open>Ledger (section 4.3)\<close>

text \<open>
  Modelled from the spec: the ledger of one user, which is server code absent from the
  sources: a balance and the history of its mutations with their reasons.
\<close>

datatype reason = RegistrationBonus | CommentReward | UploadReward | DownloadOf nat

record ledger =
  balance :: int
  entries :: "(int \<times> reason) list"

text \<open>
  Modelled from the spec: \<open>credit(userId, amount, reason)\<close> increments the balance and
  records the reason. The specification requires \<open>amount > 0\<close> of its callers.
\<close>

definition credit :: "ledger \<Rightarrow> int \<Rightarrow> reason \<Rightarrow> ledger" where
  "credit l amount why = l\<lparr>balance := balance l + amount, entries := entries l @ [(amount, why)]\<rparr>"

text \<open>
  Modelled from the spec: \<open>debit(userId, amount, reason)\<close> fails with
  \<open>InsufficientPoints\<close> if the balance is below the amount; check, then decrement.
\<close>

definition debit :: "ledger \<Rightarrow> int \<Rightarrow> reason \<Rightarrow> (error + unit) \<times> ledger" where
  "debit l amount why =
     (if balance l < amount then (Inl InsufficientPoints, l)
      else (Inr (), l\<lparr>balance := balance l - amount,
                       entries := entries l @ [(- amount, why)]\<rparr>))"

text \<open>
  A sequence of operations on one ledger, run in order; a debit that fails leaves the
  ledger as it was, and the sequence goes on.
\<close>

datatype ledger_op = Credit int reason | Debit int reason

fun apply_ledger_op :: "ledger \<Rightarrow> ledger_op \<Rightarrow> ledger" where
  "apply_ledger_op l (Credit amount why) = credit l amount why"
| "apply_ledger_op l (Debit amount why) = snd (debit l amount why)"

fun run_ledger :: "ledger \<Rightarrow> ledger_op list \<Rightarrow> ledger" where
  "run_ledger l [] = l"
| "run_ledger l (x # xs) = run_ledger (apply_ledger_op l x) xs"

text \<open>The precondition of \<open>credit\<close>: a positive amount.\<close>

fun well_formed_op :: "ledger_op \<Rightarrow> bool" where
  "well_formed_op (Credit amount why) = (0 < amount)"
| "well_formed_op (Debit amount why) = True"

subsection \<open>Catalog, ratings, comments and the state of the core (section 3)\<close>

text \<open>
  Modelled from the spec: the entities of section 3 that the operations touch (the server's
  tables are absent from the sources): a user's rank and ledger, an item's tier and
  download counter, a stored comment.
\<close>

record account =
  acc_rank :: rank
  acc_ledger :: ledger

record item =
  item_tier :: tier
  download_count :: nat

record posted_comment =
  pc_item :: nat
  pc_author :: nat
  pc_content :: jsstring
  pc_created :: nat

text \<open>
  Modelled from the spec: users and items by id, the download records (user, item, time),
  one rating per (user, item) pair, and the append-only comments.
\<close>

record core =
  accounts :: "nat \<Rightarrow> account"
  catalog :: "nat \<rightharpoonup> item"
  download_records :: "(nat \<times> nat \<times> nat) list"
  ratings :: "((nat \<times> nat) \<times> int) list"
  comments :: "posted_comment list"

subsection \<open>Entitlement gate (section 4.4)\<close>

text \<open>Modelled from the spec: the time-bounded file handle a download returns.\<close>

record file_handle =
  fh_item :: nat
  fh_issued :: nat

text \<open>
  Modelled from the spec: \<open>requestDownload\<close>, steps 1 to 6. The item is resolved, the
  cost is \<open>price(item.tier, user.rank)\<close>, a cost of 0 skips the debit, a failed debit
  fails the request with no mutation, and success increments the item's counter, appends
  a download record and returns a file handle with the new balance.
\<close>

definition requestDownload ::
  "core \<Rightarrow> nat \<Rightarrow> nat \<Rightarrow> nat \<Rightarrow> (error + file_handle \<times> int) \<times> core" where
  "requestDownload c userId itemId now =
     (case catalog c itemId of
        None \<Rightarrow> (Inl NotFound, c)
      | Some it \<Rightarrow>
          (let acc = accounts c userId;
               cost = spec_price (item_tier it) (acc_rank acc);
               (res, l') = (if cost = 0 then (Inr (), acc_ledger acc)
                            else debit (acc_ledger acc) cost (DownloadOf itemId))
           in case res of
                Inl e \<Rightarrow> (Inl e, c)
              | Inr _ \<Rightarrow>
                  (Inr (\<lparr>fh_item = itemId, fh_issued = now\<rparr>, balance l'),
                   c\<lparr>accounts := (accounts c)(userId := acc\<lparr>acc_ledger := l'\<rparr>),
                     catalog := (catalog c)(itemId \<mapsto> it\<lparr>download_count := download_count it + 1\<rparr>),
                     download_records := download_records c @ [(userId, itemId, now)]\<rparr>)))"

subsection \<open>Rating and comment store (section 4.5)\<close>

text \<open>
  Modelled from the spec: the aggregate of an item, recomputed from the stored ratings
  (sum and count of the stars given to the item).
\<close>

definition aggregate :: "((nat \<times> nat) \<times> int) list \<Rightarrow> nat \<Rightarrow> int \<times> nat" where
  "aggregate rs itemId =
     (let mine = filter (\<lambda>((u, i), stars). i = itemId) rs
      in (sum_list (map snd mine), length mine))"

text \<open>
  Modelled from the spec: \<open>rate\<close> fails with \<open>InvalidInput\<close> unless the stars are in
  \<open>[1,5]\<close>, and otherwise upserts the rating of the pair and returns the new aggregate.
\<close>

definition rate :: "core \<Rightarrow> nat \<Rightarrow> nat \<Rightarrow> int \<Rightarrow> (error + int \<times> nat) \<times> core" where
  "rate c userId itemId stars =
     (if stars < 1 \<or> 5 < stars then (Inl InvalidInput, c)
      else
        (let rs = AList.update (userId, itemId) stars (ratings c)
         in (Inr (aggregate rs itemId), c\<lparr>ratings := rs\<rparr>)))"

text \<open>
  Modelled from the spec: \<open>comment\<close> trims the content, fails with \<open>InvalidInput\<close> if it
  is then empty or longer than the maximum length, and otherwise appends the comment and
  credits the author's ledger with the comment reward. The maximum length (2000 in the
  specification's example) and the reward are parameters.
\<close>

definition comment ::
  "nat \<Rightarrow> int \<Rightarrow> core \<Rightarrow> nat \<Rightarrow> nat \<Rightarrow> jsstring \<Rightarrow> nat \<Rightarrow> (error + posted_comment) \<times> core" where
  "comment max_length reward c userId itemId content now =
     (let trimmed = trim content in
      if trimmed = [] \<or> max_length < length trimmed then (Inl InvalidInput, c)
      else
        (let pc = \<lparr>pc_item = itemId, pc_author = userId, pc_content = trimmed, pc_created = now\<rparr>;
             acc = accounts c userId
         in (Inr pc,
             c\<lparr>comments := comments c @ [pc],
               accounts := (accounts c)
                 (userId := acc\<lparr>acc_ledger := credit (acc_ledger acc) reward CommentReward\<rparr>)\<rparr>)))"

subsection \<open>Token service (section 4.2)\<close>

text \<open>
  Modelled from the spec: the states of a refresh token (\<open>active\<close>, and the terminal
  \<open>rotated\<close> and \<open>revoked\<close>), a persisted refresh token, an access token with its user,
  expiry and signature check, and the pair a login or refresh returns.
\<close>

datatype token_status = Active | Rotated | Revoked

record refresh_entry =
  re_user :: nat
  re_status :: token_status
  re_expiry :: nat

record access_tok =
  at_user :: nat
  at_expiry :: nat
  at_signed :: bool

record token_pair =
  tp_access :: access_tok
  tp_refresh :: nat

text \<open>
  Modelled from the spec: the refresh tokens persisted by the service, each bound to a
  user, with its status and expiry. Fresh refresh tokens are numbered by a counter; the
  two lifetimes are configuration.
\<close>

record token_service =
  refresh_table :: "nat \<rightharpoonup> refresh_entry"
  next_refresh :: nat
  access_ttl :: nat
  refresh_ttl :: nat

definition ts_init :: "nat \<Rightarrow> nat \<Rightarrow> token_service" where
  "ts_init a r = \<lparr>refresh_table = Map.empty, next_refresh = 0, access_ttl = a, refresh_ttl = r\<rparr>"

text \<open>Modelled from the spec: \<open>issue\<close> creates a fresh pair and persists the refresh token as active.\<close>

definition issue :: "token_service \<Rightarrow> nat \<Rightarrow> nat \<Rightarrow> token_pair \<times> token_service" where
  "issue ts userId now =
     (\<lparr>tp_access = \<lparr>at_user = userId, at_expiry = now + access_ttl ts, at_signed = True\<rparr>,
       tp_refresh = next_refresh ts\<rparr>,
      ts\<lparr>refresh_table := (refresh_table ts)
           (next_refresh ts \<mapsto>
              \<lparr>re_user = userId, re_status = Active, re_expiry = now + refresh_ttl ts\<rparr>),
         next_refresh := next_refresh ts + 1\<rparr>)"

text \<open>Modelled from the spec: \<open>verifyAccess\<close> fails if the signature is invalid or the token expired.\<close>

definition verifyAccess :: "access_tok \<Rightarrow> nat \<Rightarrow> error + nat" where
  "verifyAccess tok now =
     (if at_signed tok \<and> now < at_expiry tok then Inr (at_user tok) else Inl Unauthorized)"

text \<open>
  Modelled from the spec: \<open>refresh\<close> fails if the token is unknown, already rotated (or
  revoked), or expired; on success it invalidates the presented token and issues a new
  pair for its user.
\<close>

definition refresh :: "token_service \<Rightarrow> nat \<Rightarrow> nat \<Rightarrow> (error + token_pair) \<times> token_service" where
  "refresh ts tok now =
     (case refresh_table ts tok of
        None \<Rightarrow> (Inl Unauthorized, ts)
      | Some e \<Rightarrow>
          if re_status e \<noteq> Active \<or> re_expiry e \<le> now then (Inl Unauthorized, ts)
          else
            (let ts1 = ts\<lparr>refresh_table := (refresh_table ts)(tok \<mapsto> e\<lparr>re_status := Rotated\<rparr>)\<rparr>;
                 (p, ts2) = issue ts1 (re_user e) now
             in (Inr p, ts2)))"

text \<open>Modelled from the spec: \<open>revoke\<close> invalidates all refresh tokens of a user.\<close>

definition revoke :: "token_service \<Rightarrow> nat \<Rightarrow> token_service" where
  "revoke ts userId =
     ts\<lparr>refresh_table :=
          (\<lambda>t. map_option
             (\<lambda>e. if re_user e = userId \<and> re_status e = Active
                   then e\<lparr>re_status := Revoked\<rparr> else e)
             (refresh_table ts t))\<rparr>"

text \<open>A sequence of token service operations, run in order.\<close>

datatype ts_op = Issue nat nat | Refresh nat nat | Revoke nat

fun ts_step :: "token_service \<Rightarrow> ts_op \<Rightarrow> token_service" where
  "ts_step ts (Issue userId now) = snd (issue ts userId now)"
| "ts_step ts (Refresh tok now) = snd (refresh ts tok now)"
| "ts_step ts (Revoke userId) = revoke ts userId"

fun run_ts :: "token_service \<Rightarrow> ts_op list \<Rightarrow> token_service" where
  "run_ts ts [] = ts"
| "run_ts ts (x # xs) = run_ts (ts_step ts x) xs"

text \<open>The terminal states of a refresh token: rotated out, or revoked.\<close>

definition terminal :: "token_service \<Rightarrow> nat \<Rightarrow> bool" where
  "terminal ts tok =
     (case refresh_table ts tok of None \<Rightarrow> False | Some e \<Rightarrow> re_status e \<noteq> Active)"

text \<open>Every persisted refresh token was numbered below the counter.\<close>

definition ts_wf :: "token_service \<Rightarrow> bool" where
  "ts_wf ts = (\<forall>t. refresh_table ts t \<noteq> None \<longrightarrow> t < next_refresh ts)"

subsection \<open>Sample states of the back end\<close>

text \<open>
  The end-to-end scenario of the specification: a newcomer with the signup bonus of 5,
  a normal item (cost 3) and a premium item (cost 8).
\<close>

definition ledger0 :: ledger where
  "ledger0 = \<lparr>balance = 5, entries = [(5, RegistrationBonus)]\<rparr>"

definition core0 :: core where
  "core0 =
     \<lparr>accounts = (\<lambda>_. \<lparr>acc_rank = Newcomer, acc_ledger = ledger0\<rparr>),
      catalog = [1 \<mapsto> \<lparr>item_tier = Normal, download_count = 0\<rparr>,
                 2 \<mapsto> \<lparr>item_tier = Premium, download_count = 0\<rparr>],
      download_records = [], ratings = [], comments = []\<rparr>"

text \<open>A token service after one login: user 1 holds refresh token 0.\<close>

definition ts1 :: token_service where
  "ts1 = run_ts (ts_init 10 100) [Issue 1 0]"

definition pair1 :: token_pair where
  "pair1 = \<lparr>tp_access = \<lparr>at_user = 1, at_expiry = 11, at_signed = True\<rparr>, tp_refresh = 1\<rparr>"

section \<open>Pricing: lemmas and theorems\<close>

lemma get_property_baseCosts_tier:
  "get_property baseCosts (tier_name t) = JNum (spec_base t)"
  by (cases t) (simp_all add: get_property_def baseCosts_def)

lemma get_property_discounts_rank:
  "get_property discounts (rank_name r) = JNum (spec_discount r)"
  by (cases r) (simp_all add: get_property_def discounts_def)

lemma base_of_tier:
  "js_or (get_property baseCosts (tier_name t)) (JNum 3) = JNum (spec_base t)"
  unfolding get_property_baseCosts_tier js_or_def by (cases t) simp_all

lemma discount_of_rank:
  "js_or (get_property discounts (rank_name r)) (JNum 0) = JNum (spec_discount r)"
  unfolding get_property_discounts_rank js_or_def by (cases r) simp_all

lemma getDownloadCost_known:
  "getDownloadCost (rank_name r) (tier_name t) = JNum (max 0 (spec_base t - spec_discount r))"
  by (simp add: getDownloadCost_def base_of_tier discount_of_rank js_sub_def math_max_def)

text \<open>
  C1. For every tier and every rank of the two enumerations, \<open>getDownloadCost\<close> returns
  \<open>max(0, base(tier) - discount(rank))\<close> for the base costs 3, 8, 15 and the discounts
  0, 1, 1, 2, 3, 99; in particular exclusive/newcomer costs 15, exclusive/legend costs 0
  and normal/player costs 2.
\<close>

theorem getDownloadCost_price_table:
  "getDownloadCost (rank_name r) (tier_name t) = JNum (spec_price t r)
   \<and> getDownloadCost ''newcomer'' ''exclusive'' = JNum 15
   \<and> getDownloadCost ''legend'' ''exclusive'' = JNum 0
   \<and> getDownloadCost ''player'' ''normal'' = JNum 2"
proof -
  have "getDownloadCost (rank_name Newcomer) (tier_name Exclusive) = JNum 15"
    by (simp only: getDownloadCost_known) simp
  moreover have "getDownloadCost (rank_name Legend) (tier_name Exclusive) = JNum 0"
    by (simp only: getDownloadCost_known) simp
  moreover have "getDownloadCost (rank_name Player) (tier_name Normal) = JNum 2"
    by (simp only: getDownloadCost_known) simp
  ultimately show ?thesis
    by (simp add: getDownloadCost_known spec_price_def)
qed

text \<open>
  C5. For each of the three tiers the price for rank legend is 0: the discount 99 exceeds
  every base cost and \<open>Math.max(0, _)\<close> clamps the difference.
\<close>

theorem getDownloadCost_legend_free:
  "getDownloadCost ''legend'' (tier_name t) = JNum 0
   \<and> spec_base t < spec_discount Legend"
proof -
  have "getDownloadCost (rank_name Legend) (tier_name t) = JNum 0"
    unfolding getDownloadCost_known by (cases t) simp_all
  moreover have "spec_base t < spec_discount Legend"
    by (cases t) simp_all
  ultimately show ?thesis by simp
qed

text \<open>
  Outside the own keys and the names inherited from \<open>Object.prototype\<close>, the two
  \<open>||\<close> defaults apply: discount 0 for the rank, base cost 3 for the tier.
\<close>

lemma get_property_plain:
  "map_of tbl k = None \<Longrightarrow> \<not> inherited_key k \<Longrightarrow> get_property tbl k = JUndefined"
  by (simp add: get_property_def inherited_key_def)

lemma getDownloadCost_unknown_rank:
  assumes "map_of discounts k = None" and "\<not> inherited_key k"
  shows "getDownloadCost k (tier_name t) = JNum (spec_base t)"
proof -
  have "js_or (get_property discounts k) (JNum 0) = JNum 0"
    using assms by (simp add: get_property_plain js_or_def)
  moreover have "0 \<le> spec_base t" by (cases t) simp_all
  ultimately show ?thesis
    by (simp add: getDownloadCost_def base_of_tier js_sub_def math_max_def)
qed

lemma getDownloadCost_unknown_tier:
  assumes "map_of baseCosts k = None" and "\<not> inherited_key k"
  shows "getDownloadCost (rank_name r) k = JNum (max 0 (3 - spec_discount r))"
proof -
  have "js_or (get_property baseCosts k) (JNum 3) = JNum 3"
    using assms by (simp add: get_property_plain js_or_def)
  then show ?thesis
    by (simp add: getDownloadCost_def discount_of_rank js_sub_def math_max_def)
qed

text \<open>
  C9. \<open>getDownloadCost\<close> on arbitrary strings: a rank outside the six gets discount 0, a
  tier outside the three gets base cost 3, and the result is a non-negative integer. The
  code misses the keys an object literal inherits: at rank \<open>constructor\<close> the lookup
  \<open>discounts[rank]\<close> is the function \<open>Object\<close>, which is truthy, so the default is not
  taken and the result is \<open>NaN\<close>; likewise at tier \<open>constructor\<close>.
\<close>

theorem getDownloadCost_inherited_key_NaN:
  "get_property discounts ''constructor'' = JFunction
   \<and> getDownloadCost ''constructor'' ''normal'' = JNaN
   \<and> getDownloadCost ''newcomer'' ''constructor'' = JNaN
   \<and> getDownloadCost ''newcomer'' ''normal'' = JNum 3"
  by (simp add: getDownloadCost_def get_property_def discounts_def baseCosts_def
      object_prototype_methods_def js_or_def js_sub_def math_max_def)

text \<open>
  C10. The price shown to an anonymous visitor is an upper bound. \<open>createMidiCard\<close>
  prices a card at rank \<open>newcomer\<close> when nobody is logged in or the user has no rank; for
  every tier and every rank of the table the newcomer price is at least the rank's price;
  and the price is antitone in the discount: a rank with a larger discount never pays more.
\<close>

theorem anonymous_price_upper_bound:
  "card_cost None m = getDownloadCost ''newcomer'' (card_typeClass m)
   \<and> card_cost (Some (u\<lparr>user_rank := None\<rparr>)) m = getDownloadCost ''newcomer'' (card_typeClass m)
   \<and> js_ge (getDownloadCost ''newcomer'' (tier_name t)) (getDownloadCost (rank_name r) (tier_name t))
   \<and> js_ge (card_cost None (m\<lparr>midi_type := Some (tier_name t)\<rparr>))
            (card_cost (Some (u\<lparr>user_rank := Some (rank_name r)\<rparr>)) (m\<lparr>midi_type := Some (tier_name t)\<rparr>))
   \<and> (spec_discount r1 \<le> spec_discount r2 \<longrightarrow>
        js_ge (getDownloadCost (rank_name r1) (tier_name t)) (getDownloadCost (rank_name r2) (tier_name t)))"
proof -
  have anon: "card_cost None m = getDownloadCost ''newcomer'' (card_typeClass m)"
    by (simp add: card_cost_def optional_rank_def str_or_def)
  have norank: "card_cost (Some (u\<lparr>user_rank := None\<rparr>)) m
      = getDownloadCost ''newcomer'' (card_typeClass m)"
    by (simp add: card_cost_def optional_rank_def str_or_def)
  have d0: "0 \<le> spec_discount r" by (cases r) simp_all
  have "js_ge (getDownloadCost (rank_name Newcomer) (tier_name t))
              (getDownloadCost (rank_name r) (tier_name t))"
    unfolding getDownloadCost_known using d0 by (simp add: js_ge_def)
  then have bound: "js_ge (getDownloadCost ''newcomer'' (tier_name t))
              (getDownloadCost (rank_name r) (tier_name t))"
    by simp
  have tn: "tier_name t \<noteq> []" by (cases t) simp_all
  have rn: "rank_name r \<noteq> []" by (cases r) simp_all
  have card: "js_ge (card_cost None (m\<lparr>midi_type := Some (tier_name t)\<rparr>))
      (card_cost (Some (u\<lparr>user_rank := Some (rank_name r)\<rparr>)) (m\<lparr>midi_type := Some (tier_name t)\<rparr>))"
    using bound tn rn by (simp add: card_cost_def card_typeClass_def optional_rank_def str_or_def)
  have anti: "spec_discount r1 \<le> spec_discount r2 \<longrightarrow>
        js_ge (getDownloadCost (rank_name r1) (tier_name t)) (getDownloadCost (rank_name r2) (tier_name t))"
    unfolding getDownloadCost_known by (auto simp add: js_ge_def max_def)
  from anon norank bound card anti show ?thesis by blast
qed

theorem anonymous_price_upper_bound_witness:
  "spec_discount Player \<le> spec_discount Star
   \<and> getDownloadCost ''player'' ''premium'' = JNum 7
   \<and> getDownloadCost ''star'' ''premium'' = JNum 5
   \<and> js_ge (getDownloadCost ''player'' ''premium'') (getDownloadCost ''star'' ''premium'')"
proof -
  have h: "spec_discount Player \<le> spec_discount Star" by simp
  have "js_ge (getDownloadCost (rank_name Player) (tier_name Premium))
              (getDownloadCost (rank_name Star) (tier_name Premium))"
    using anonymous_price_upper_bound [of undefined undefined Premium Newcomer Player Star] h
    by blast
  moreover have "getDownloadCost ''player'' ''premium'' = JNum 7"
    by (simp add: getDownloadCost_def get_property_def discounts_def baseCosts_def
      js_or_def js_sub_def math_max_def)
  moreover have "getDownloadCost ''star'' ''premium'' = JNum 5"
    by (simp add: getDownloadCost_def get_property_def discounts_def baseCosts_def
      js_or_def js_sub_def math_max_def)
  ultimately show ?thesis using h by simp
qed

section \<open>The client's token refresh\<close>

lemma refreshAccessToken_success:
  assumes "tok_truthy (refreshToken s)"
  shows "refreshAccessToken (Response True (BodyJson d)) Written Written s =
     (True,
      s\<lparr>accessToken := access_token d, refreshToken := refresh_token d,
        localStorage := (localStorage s)
          (''access_token'' \<mapsto> tok_to_string (access_token d),
           ''refresh_token'' \<mapsto> tok_to_string (refresh_token d))\<rparr>,
      [Fetch (refresh_request s)])"
  using assms by (simp add: refreshAccessToken_def setItem_def)

lemma refreshAccessToken_no_token:
  "\<not> tok_truthy (refreshToken s) \<Longrightarrow> refreshAccessToken env w1 w2 s = (False, s, [])"
  by (simp add: refreshAccessToken_def)

lemma refreshAccessToken_failure:
  assumes "env = NetworkError \<or> env = Response False b \<or> env = Response True BodyNotJson
     \<or> env = Response True BodyNull"
  shows "fst (refreshAccessToken env w1 w2 s) = False
     \<and> fst (snd (refreshAccessToken env w1 w2 s)) = s"
  using assms by (auto simp add: refreshAccessToken_def)

text \<open>
  A write to \<open>localStorage\<close> that throws: the call returns false, and the two variables
  already hold the new tokens.
\<close>

lemma refreshAccessToken_write_throws:
  assumes "tok_truthy (refreshToken s)" and "w1 = WriteThrows \<or> w2 = WriteThrows"
  shows "fst (refreshAccessToken (Response True (BodyJson d)) w1 w2 s) = False
     \<and> accessToken (fst (snd (refreshAccessToken (Response True (BodyJson d)) w1 w2 s)))
         = access_token d
     \<and> refreshToken (fst (snd (refreshAccessToken (Response True (BodyJson d)) w1 w2 s)))
         = refresh_token d"
  using assms
  by (cases w1; cases w2) (simp_all add: refreshAccessToken_def setItem_def)

text \<open>
  C4, as the claim states it, fails in three places. An ok answer whose body cannot be
  read makes the call return false. An ok answer that carries the presented refresh token
  again leaves that token stored, in the variable and in \<open>localStorage\<close>. And an ok answer
  with new tokens, when the first write to \<open>localStorage\<close> throws, makes the call return
  false with the access token variable replaced and \<open>localStorage\<close> as it was.
\<close>

theorem refreshAccessToken_counterexample:
  "refreshAccessToken (Response True BodyNotJson) Written Written session0
     = (False, session0, [Fetch (refresh_request session0), ConsoleError])
   \<and> fst (refreshAccessToken
        (Response True (BodyJson \<lparr>access_token = TStr ''a1'', refresh_token = TStr ''r0''\<rparr>))
        Written Written session0) = True
   \<and> refreshToken (fst (snd (refreshAccessToken
        (Response True (BodyJson \<lparr>access_token = TStr ''a1'', refresh_token = TStr ''r0''\<rparr>))
        Written Written session0))) = TStr ''r0''
   \<and> localStorage (fst (snd (refreshAccessToken
        (Response True (BodyJson \<lparr>access_token = TStr ''a1'', refresh_token = TStr ''r0''\<rparr>))
        Written Written session0))) ''refresh_token'' = Some ''r0''
   \<and> fst (refreshAccessToken
        (Response True (BodyJson \<lparr>access_token = TStr ''a1'', refresh_token = TStr ''r1''\<rparr>))
        WriteThrows Written session0) = False
   \<and> accessToken (fst (snd (refreshAccessToken
        (Response True (BodyJson \<lparr>access_token = TStr ''a1'', refresh_token = TStr ''r1''\<rparr>))
        WriteThrows Written session0))) = TStr ''a1''
   \<and> localStorage (fst (snd (refreshAccessToken
        (Response True (BodyJson \<lparr>access_token = TStr ''a1'', refresh_token = TStr ''r1''\<rparr>))
        WriteThrows Written session0))) ''access_token'' = Some ''a0''"
  by (simp add: refreshAccessToken_def setItem_def session0_def)

text \<open>
  C4, amended. With a truthy refresh token stored, an ok answer whose body is JSON data,
  and both writes to \<open>localStorage\<close> succeeding, the call returns true, sends the stored
  refresh token, and replaces both tokens: the variables hold the body's \<open>access_token\<close>
  and \<open>refresh_token\<close>, \<open>localStorage\<close> holds their string forms, and nothing else
  changes; the presented refresh token is no longer stored when the new one differs from
  it. With no truthy refresh token stored, a rejected request, an answer that is not ok,
  or an ok answer whose body cannot be read, the call returns false and the state is
  unchanged, whatever the writes would do.
\<close>

theorem refreshAccessToken_outcomes:
  "(tok_truthy (refreshToken s) \<longrightarrow>
      (case refreshAccessToken (Response True (BodyJson d)) Written Written s of
         (ok, s', es) \<Rightarrow>
           ok \<and> es = [Fetch (refresh_request s)]
           \<and> req_body (refresh_request s) = RefreshBody (refreshToken s)
           \<and> accessToken s' = access_token d \<and> refreshToken s' = refresh_token d
           \<and> localStorage s' ''access_token'' = Some (tok_to_string (access_token d))
           \<and> localStorage s' ''refresh_token'' = Some (tok_to_string (refresh_token d))
           \<and> currentUser s' = currentUser s
           \<and> (\<forall>k. k \<noteq> ''access_token'' \<longrightarrow> k \<noteq> ''refresh_token'' \<longrightarrow>
                  localStorage s' k = localStorage s k)
           \<and> (tok_to_string (refresh_token d) \<noteq> tok_to_string (refreshToken s) \<longrightarrow>
                  refreshToken s' \<noteq> refreshToken s
                  \<and> localStorage s' ''refresh_token'' \<noteq> Some (tok_to_string (refreshToken s)))))
   \<and> (\<not> tok_truthy (refreshToken s) \<or> env = NetworkError \<or> env = Response False b
        \<or> env = Response True BodyNotJson \<or> env = Response True BodyNull \<longrightarrow>
        fst (refreshAccessToken env w1 w2 s) = False
        \<and> fst (snd (refreshAccessToken env w1 w2 s)) = s)"
proof -
  have ok: "tok_truthy (refreshToken s) \<longrightarrow>
      (case refreshAccessToken (Response True (BodyJson d)) Written Written s of
         (ok, s', es) \<Rightarrow>
           ok \<and> es = [Fetch (refresh_request s)]
           \<and> req_body (refresh_request s) = RefreshBody (refreshToken s)
           \<and> accessToken s' = access_token d \<and> refreshToken s' = refresh_token d
           \<and> localStorage s' ''access_token'' = Some (tok_to_string (access_token d))
           \<and> localStorage s' ''refresh_token'' = Some (tok_to_string (refresh_token d))
           \<and> currentUser s' = currentUser s
           \<and> (\<forall>k. k \<noteq> ''access_token'' \<longrightarrow> k \<noteq> ''refresh_token'' \<longrightarrow>
                  localStorage s' k = localStorage s k)
           \<and> (tok_to_string (refresh_token d) \<noteq> tok_to_string (refreshToken s) \<longrightarrow>
                  refreshToken s' \<noteq> refreshToken s
                  \<and> localStorage s' ''refresh_token'' \<noteq> Some (tok_to_string (refreshToken s))))"
  proof
    assume t: "tok_truthy (refreshToken s)"
    show "case refreshAccessToken (Response True (BodyJson d)) Written Written s of
         (ok, s', es) \<Rightarrow>
           ok \<and> es = [Fetch (refresh_request s)]
           \<and> req_body (refresh_request s) = RefreshBody (refreshToken s)
           \<and> accessToken s' = access_token d \<and> refreshToken s' = refresh_token d
           \<and> localStorage s' ''access_token'' = Some (tok_to_string (access_token d))
           \<and> localStorage s' ''refresh_token'' = Some (tok_to_string (refresh_token d))
           \<and> currentUser s' = currentUser s
           \<and> (\<forall>k. k \<noteq> ''access_token'' \<longrightarrow> k \<noteq> ''refresh_token'' \<longrightarrow>
                  localStorage s' k = localStorage s k)
           \<and> (tok_to_string (refresh_token d) \<noteq> tok_to_string (refreshToken s) \<longrightarrow>
                  refreshToken s' \<noteq> refreshToken s
                  \<and> localStorage s' ''refresh_token'' \<noteq> Some (tok_to_string (refreshToken s)))"
      unfolding refreshAccessToken_success [OF t]
      by (auto simp add: refresh_request_def)
  qed
  have ko: "\<not> tok_truthy (refreshToken s) \<or> env = NetworkError \<or> env = Response False b
        \<or> env = Response True BodyNotJson \<or> env = Response True BodyNull \<longrightarrow>
        fst (refreshAccessToken env w1 w2 s) = False
        \<and> fst (snd (refreshAccessToken env w1 w2 s)) = s"
    using refreshAccessToken_no_token [of s env w1 w2]
      refreshAccessToken_failure [of env b w1 w2 s]
    by auto
  from ok ko show ?thesis by (rule conjI)
qed

theorem refreshAccessToken_outcomes_witness:
  "tok_truthy (refreshToken session0)
   \<and> tok_to_string (TStr ''r1'') \<noteq> tok_to_string (refreshToken session0)
   \<and> fst (refreshAccessToken
        (Response True (BodyJson \<lparr>access_token = TStr ''a1'', refresh_token = TStr ''r1''\<rparr>))
        Written Written session0)
   \<and> refreshToken (fst (snd (refreshAccessToken
        (Response True (BodyJson \<lparr>access_token = TStr ''a1'', refresh_token = TStr ''r1''\<rparr>))
        Written Written session0))) = TStr ''r1''
   \<and> localStorage (fst (snd (refreshAccessToken
        (Response True (BodyJson \<lparr>access_token = TStr ''a1'', refresh_token = TStr ''r1''\<rparr>))
        Written Written session0))) ''refresh_token'' \<noteq> Some ''r0''
   \<and> fst (refreshAccessToken (Response False BodyNotJson) WriteThrows Written session0) = False
   \<and> fst (snd (refreshAccessToken (Response False BodyNotJson) WriteThrows Written session0))
       = session0"
proof -
  have t: "tok_truthy (refreshToken session0)"
    by (simp add: session0_def)
  have n: "tok_to_string (TStr ''r1'') \<noteq> tok_to_string (refreshToken session0)"
    by (simp add: session0_def)
  have r0: "tok_to_string (refreshToken session0) = ''r0''"
    by (simp add: session0_def)
  show ?thesis
    using t n r0
      refreshAccessToken_outcomes
        [of session0 "\<lparr>access_token = TStr ''a1'', refresh_token = TStr ''r1''\<rparr>"
            "Response False BodyNotJson" BodyNotJson WriteThrows Written]
    by (auto split: prod.splits)
qed

section \<open>Downloads and the access token\<close>

lemma downloadMidi_anonymous:
  "currentUser s = None \<Longrightarrow>
     downloadMidi i env fenv s = (s, [Toast MsgLoginToDownload Info, ShowLoginModal])"
  by (simp add: downloadMidi_def)

lemma requests_of_download_file:
  "requests_of (download_file s i d fenv)
     = [fetchWithAuth s ''GET'' (FilePath (dl_file_path d)) NoBody]"
  by (cases fenv) (simp_all add: download_file_def)

lemma downloadMidi_first_request:
  assumes "currentUser s \<noteq> None"
  shows "\<exists>es. snd (downloadMidi i env fenv s)
           = Fetch (fetchWithAuth s ''POST'' (MidiDownload i) NoBody) # es"
  using assms by (auto simp add: downloadMidi_def)

lemma fetchWithAuth_header:
  "header (fetchWithAuth s m p b) ''Authorization''
     = (if tok_truthy (accessToken s)
        then Some (''Bearer '' @ tok_to_string (accessToken s)) else None)"
  by (simp add: fetchWithAuth_def header_def)

text \<open>
  C6, as the claim states it, fails for a session that has a user and no access token.
  Such a session arises when \<open>logout\<close> runs while a \<open>checkAuth\<close> awaits \<open>/auth/me\<close>: the
  continuation stores the user after the tokens were cleared. There \<open>downloadMidi\<close> sends
  the download request, and \<open>fetchWithAuth\<close> attaches no \<open>Authorization\<close> header.
\<close>

theorem downloadMidi_counterexample:
  "currentUser session_after_race = Some alice
   \<and> accessToken session_after_race = TNull
   \<and> requests_of (snd (downloadMidi 7 NetworkError FileNetworkError session_after_race))
       = [\<lparr>req_method = ''POST'', req_path = MidiDownload 7,
           req_headers = [(''Content-Type'', ''application/json'')], req_body = NoBody\<rparr>]
   \<and> header (hd (requests_of (snd (downloadMidi 7 NetworkError FileNetworkError
         session_after_race)))) ''Authorization'' = None"
  by (simp add: session_after_race_def checkAuth_me_ok_def logout_def session0_def
      alice_def downloadMidi_def fetchWithAuth_def header_def)

text \<open>
  C6, amended. When no user is logged in, \<open>downloadMidi\<close> issues no request and leaves
  the session state as it was: it shows a toast and the login modal and returns. When a
  user is logged in its first effect is the download request (POST, the item's download
  path); that request carries \<open>Authorization: Bearer\<close> with the access token when an
  access token is stored (truthy), and no \<open>Authorization\<close> header otherwise.
\<close>

theorem downloadMidi_identity:
  "(currentUser s = None \<longrightarrow>
        downloadMidi i env fenv s = (s, [Toast MsgLoginToDownload Info, ShowLoginModal])
        \<and> requests_of (snd (downloadMidi i env fenv s)) = [])
   \<and> (currentUser s \<noteq> None \<longrightarrow>
        (\<exists>es. snd (downloadMidi i env fenv s)
           = Fetch (fetchWithAuth s ''POST'' (MidiDownload i) NoBody) # es)
        \<and> req_method (hd (requests_of (snd (downloadMidi i env fenv s)))) = ''POST''
        \<and> req_path (hd (requests_of (snd (downloadMidi i env fenv s)))) = MidiDownload i
        \<and> (tok_truthy (accessToken s) \<longrightarrow>
             header (hd (requests_of (snd (downloadMidi i env fenv s)))) ''Authorization''
               = Some (''Bearer '' @ tok_to_string (accessToken s)))
        \<and> (\<not> tok_truthy (accessToken s) \<longrightarrow>
             header (hd (requests_of (snd (downloadMidi i env fenv s)))) ''Authorization''
               = None))"
proof -
  have anon: "currentUser s = None \<longrightarrow>
        downloadMidi i env fenv s = (s, [Toast MsgLoginToDownload Info, ShowLoginModal])
        \<and> requests_of (snd (downloadMidi i env fenv s)) = []"
    by (simp add: downloadMidi_anonymous)
  have user: "currentUser s \<noteq> None \<longrightarrow>
        (\<exists>es. snd (downloadMidi i env fenv s)
           = Fetch (fetchWithAuth s ''POST'' (MidiDownload i) NoBody) # es)
        \<and> req_method (hd (requests_of (snd (downloadMidi i env fenv s)))) = ''POST''
        \<and> req_path (hd (requests_of (snd (downloadMidi i env fenv s)))) = MidiDownload i
        \<and> (tok_truthy (accessToken s) \<longrightarrow>
             header (hd (requests_of (snd (downloadMidi i env fenv s)))) ''Authorization''
               = Some (''Bearer '' @ tok_to_string (accessToken s)))
        \<and> (\<not> tok_truthy (accessToken s) \<longrightarrow>
             header (hd (requests_of (snd (downloadMidi i env fenv s)))) ''Authorization''
               = None)"
  proof
    assume u: "currentUser s \<noteq> None"
    from downloadMidi_first_request [OF u, of i env fenv]
    obtain es where es: "snd (downloadMidi i env fenv s)
           = Fetch (fetchWithAuth s ''POST'' (MidiDownload i) NoBody) # es"
      by blast
    then have h: "hd (requests_of (snd (downloadMidi i env fenv s)))
           = fetchWithAuth s ''POST'' (MidiDownload i) NoBody"
      by simp
    have m: "req_method (fetchWithAuth s ''POST'' (MidiDownload i) NoBody) = ''POST''"
      and p: "req_path (fetchWithAuth s ''POST'' (MidiDownload i) NoBody) = MidiDownload i"
      by (simp_all add: fetchWithAuth_def)
    show "(\<exists>es. snd (downloadMidi i env fenv s)
           = Fetch (fetchWithAuth s ''POST'' (MidiDownload i) NoBody) # es)
        \<and> req_method (hd (requests_of (snd (downloadMidi i env fenv s)))) = ''POST''
        \<and> req_path (hd (requests_of (snd (downloadMidi i env fenv s)))) = MidiDownload i
        \<and> (tok_truthy (accessToken s) \<longrightarrow>
             header (hd (requests_of (snd (downloadMidi i env fenv s)))) ''Authorization''
               = Some (''Bearer '' @ tok_to_string (accessToken s)))
        \<and> (\<not> tok_truthy (accessToken s) \<longrightarrow>
             header (hd (requests_of (snd (downloadMidi i env fenv s)))) ''Authorization''
               = None)"
      unfolding h m p using es by (simp add: fetchWithAuth_header)
  qed
  from anon user show ?thesis by (rule conjI)
qed

theorem downloadMidi_identity_witness:
  "currentUser session0 \<noteq> None \<and> tok_truthy (accessToken session0)
   \<and> header (hd (requests_of (snd (downloadMidi 7 NetworkError FileNetworkError session0))))
        ''Authorization'' = Some ''Bearer a0''
   \<and> currentUser (fst (logout session0)) = None
   \<and> downloadMidi 7 NetworkError FileNetworkError (fst (logout session0))
       = (fst (logout session0), [Toast MsgLoginToDownload Info, ShowLoginModal])
   \<and> requests_of (snd (downloadMidi 7 NetworkError FileNetworkError (fst (logout session0)))) = []
   \<and> \<not> tok_truthy (accessToken session_after_race)
   \<and> currentUser session_after_race \<noteq> None
   \<and> header (hd (requests_of (snd (downloadMidi 7 NetworkError FileNetworkError
        session_after_race)))) ''Authorization'' = None"
proof -
  have a: "currentUser session0 \<noteq> None" "tok_truthy (accessToken session0)"
    "tok_to_string (accessToken session0) = ''a0''"
    by (simp_all add: session0_def)
  have b: "currentUser (fst (logout session0)) = None"
    by (simp add: logout_def)
  have c: "\<not> tok_truthy (accessToken session_after_race)"
    "currentUser session_after_race \<noteq> None"
    by (simp_all add: session_after_race_def checkAuth_me_ok_def logout_def alice_def)
  show ?thesis
    using a b c
      downloadMidi_identity [of session0 7 NetworkError FileNetworkError]
      downloadMidi_identity [of "fst (logout session0)" 7 NetworkError FileNetworkError]
      downloadMidi_identity [of session_after_race 7 NetworkError FileNetworkError]
    by simp
qed

section \<open>Ledger and entitlement gate\<close>

lemma debit_insufficient:
  "balance l < amount \<Longrightarrow> debit l amount why = (Inl InsufficientPoints, l)"
  by (simp add: debit_def)

lemma apply_ledger_op_nonneg:
  "0 \<le> balance l \<Longrightarrow> well_formed_op x \<Longrightarrow> 0 \<le> balance (apply_ledger_op l x)"
  by (cases x) (auto simp add: credit_def debit_def)

lemma run_ledger_nonneg:
  "0 \<le> balance l \<Longrightarrow> list_all well_formed_op xs \<Longrightarrow> 0 \<le> balance (run_ledger l xs)"
proof (induction xs arbitrary: l)
  case Nil
  then show ?case by simp
next
  case (Cons x xs)
  then show ?case by (simp add: apply_ledger_op_nonneg)
qed

lemma run_ledger_prefix_nonneg:
  assumes "0 \<le> balance l" and "list_all well_formed_op xs"
  shows "0 \<le> balance (run_ledger l (take n xs))"
proof -
  have "list_all well_formed_op (take n xs)"
    using assms(2) by (auto simp add: list_all_iff dest: in_set_takeD)
  with assms(1) show ?thesis by (rule run_ledger_nonneg)
qed

lemma requestDownload_insufficient:
  assumes "catalog c itemId = Some it"
    and "0 \<le> balance (acc_ledger (accounts c userId))"
    and "balance (acc_ledger (accounts c userId))
           < spec_price (item_tier it) (acc_rank (accounts c userId))"
  shows "requestDownload c userId itemId now = (Inl InsufficientPoints, c)"
  using assms by (simp add: requestDownload_def Let_def debit_def)

text \<open>
  C2. Along every sequence of credits (of positive amounts) and debits on one user's
  ledger that starts at a non-negative balance, the balance is non-negative after every
  prefix. A debit of more than the balance fails with \<open>InsufficientPoints\<close> and returns
  the ledger as it was; a download whose price exceeds the balance fails with
  \<open>InsufficientPoints\<close> and returns the whole state as it was: no points debited, no
  counter incremented, no record appended.
\<close>

theorem ledger_never_negative:
  "(0 \<le> balance l \<and> list_all well_formed_op xs \<longrightarrow> 0 \<le> balance (run_ledger l (take n xs)))
   \<and> (balance l < amount \<longrightarrow> debit l amount why = (Inl InsufficientPoints, l))
   \<and> (catalog c itemId = Some it
        \<and> 0 \<le> balance (acc_ledger (accounts c userId))
        \<and> balance (acc_ledger (accounts c userId))
             < spec_price (item_tier it) (acc_rank (accounts c userId))
        \<longrightarrow> requestDownload c userId itemId now = (Inl InsufficientPoints, c))"
  using run_ledger_prefix_nonneg [of l xs n] debit_insufficient [of l amount why]
    requestDownload_insufficient [of c itemId it userId now]
  by blast

theorem ledger_never_negative_witness:
  "0 \<le> balance ledger0
   \<and> list_all well_formed_op [Debit 3 (DownloadOf 1), Debit 8 (DownloadOf 2), Credit 1 CommentReward]
   \<and> balance (run_ledger ledger0 [Debit 3 (DownloadOf 1), Debit 8 (DownloadOf 2)]) = 2
   \<and> 0 \<le> balance (run_ledger ledger0
        (take 2 [Debit 3 (DownloadOf 1), Debit 8 (DownloadOf 2), Credit 1 CommentReward]))
   \<and> balance ledger0 < 8
   \<and> debit ledger0 8 (DownloadOf 2) = (Inl InsufficientPoints, ledger0)
   \<and> catalog core0 2 = Some \<lparr>item_tier = Premium, download_count = 0\<rparr>
   \<and> balance (acc_ledger (accounts core0 1)) < spec_price Premium (acc_rank (accounts core0 1))
   \<and> requestDownload core0 1 2 9 = (Inl InsufficientPoints, core0)"
proof -
  have a: "0 \<le> balance ledger0" "balance ledger0 < 8"
    by (simp_all add: ledger0_def)
  have b: "list_all well_formed_op
      [Debit 3 (DownloadOf 1), Debit 8 (DownloadOf 2), Credit 1 CommentReward]"
    by simp
  have c: "balance (run_ledger ledger0 [Debit 3 (DownloadOf 1), Debit 8 (DownloadOf 2)]) = 2"
    by (simp add: ledger0_def debit_def)
  have d: "catalog core0 2 = Some \<lparr>item_tier = Premium, download_count = 0\<rparr>"
    by (simp add: core0_def)
  have e: "0 \<le> balance (acc_ledger (accounts core0 1))"
    "balance (acc_ledger (accounts core0 1)) < spec_price Premium (acc_rank (accounts core0 1))"
    by (simp_all add: core0_def ledger0_def spec_price_def)
  show ?thesis
    using a b c d e
      ledger_never_negative
        [of ledger0 "[Debit 3 (DownloadOf 1), Debit 8 (DownloadOf 2), Credit 1 CommentReward]"
            2 8 "DownloadOf 2" core0 2 "\<lparr>item_tier = Premium, download_count = 0\<rparr>" 1 9]
    by simp
qed

section \<open>Token service\<close>

lemma ts_wf_init: "ts_wf (ts_init a r)"
  by (simp add: ts_wf_def ts_init_def)

lemma ts_wf_issue: "ts_wf ts \<Longrightarrow> ts_wf (snd (issue ts u now))"
  by (auto simp add: ts_wf_def issue_def less_Suc_eq)

lemma ts_wf_refresh: "ts_wf ts \<Longrightarrow> ts_wf (snd (refresh ts t now))"
  by (auto simp add: ts_wf_def refresh_def issue_def less_Suc_eq split: option.splits)

lemma ts_wf_revoke: "ts_wf ts \<Longrightarrow> ts_wf (revoke ts u)"
  by (auto simp add: ts_wf_def revoke_def)

lemma ts_wf_step: "ts_wf ts \<Longrightarrow> ts_wf (ts_step ts x)"
  by (cases x) (simp_all add: ts_wf_issue ts_wf_refresh ts_wf_revoke)

lemma ts_wf_run: "ts_wf ts \<Longrightarrow> ts_wf (run_ts ts xs)"
  by (induction xs arbitrary: ts) (simp_all add: ts_wf_step)

text \<open>A fresh token is numbered by the counter, so issuing never touches a known token.\<close>

lemma terminal_issue: "ts_wf ts \<Longrightarrow> terminal ts t \<Longrightarrow> terminal (snd (issue ts u now)) t"
  by (auto simp add: ts_wf_def terminal_def issue_def split: option.splits)

lemma terminal_refresh:
  "ts_wf ts \<Longrightarrow> terminal ts t \<Longrightarrow> terminal (snd (refresh ts t' now)) t"
  by (auto simp add: ts_wf_def terminal_def refresh_def issue_def split: option.splits)

lemma terminal_revoke: "terminal ts t \<Longrightarrow> terminal (revoke ts u) t"
  by (auto simp add: terminal_def revoke_def split: option.splits)

lemma terminal_step: "ts_wf ts \<Longrightarrow> terminal ts t \<Longrightarrow> terminal (ts_step ts x) t"
  by (cases x) (simp_all add: terminal_issue terminal_refresh terminal_revoke)

lemma terminal_run: "ts_wf ts \<Longrightarrow> terminal ts t \<Longrightarrow> terminal (run_ts ts xs) t"
  by (induction xs arbitrary: ts) (simp_all add: terminal_step ts_wf_step)

lemma refresh_terminal: "terminal ts t \<Longrightarrow> refresh ts t now = (Inl Unauthorized, ts)"
  by (auto simp add: terminal_def refresh_def split: option.splits)

lemma refresh_success_terminal:
  "ts_wf ts \<Longrightarrow> fst (refresh ts t now) = Inr p \<Longrightarrow> terminal (snd (refresh ts t now)) t"
  by (auto simp add: ts_wf_def terminal_def refresh_def issue_def split: option.splits if_splits)

lemma revoke_makes_terminal:
  "refresh_table ts t = Some e \<Longrightarrow> terminal (revoke ts (re_user e)) t"
  by (auto simp add: terminal_def revoke_def)

text \<open>
  C3. In every state the token service reaches from its initial state: once a refresh
  token has been rotated out by a successful refresh, or its user's tokens have been
  revoked, presenting it fails with \<open>Unauthorized\<close> (and changes nothing) after any further
  sequence of operations; and no operation takes a token out of a terminal state.
\<close>

theorem refresh_token_single_use:
  assumes "ts = run_ts (ts_init a r) ops1"
  shows "(fst (refresh ts t now) = Inr p \<longrightarrow>
            refresh (run_ts (snd (refresh ts t now)) ops2) t now'
              = (Inl Unauthorized, run_ts (snd (refresh ts t now)) ops2))
       \<and> (refresh_table ts t = Some e \<longrightarrow>
            refresh (run_ts (revoke ts (re_user e)) ops2) t now'
              = (Inl Unauthorized, run_ts (revoke ts (re_user e)) ops2))
       \<and> (terminal ts t \<longrightarrow>
            terminal (ts_step ts x) t \<and> refresh ts t now = (Inl Unauthorized, ts))"
proof -
  have wf: "ts_wf ts"
    unfolding assms by (rule ts_wf_run [OF ts_wf_init])
  have rotated: "fst (refresh ts t now) = Inr p \<longrightarrow>
            refresh (run_ts (snd (refresh ts t now)) ops2) t now'
              = (Inl Unauthorized, run_ts (snd (refresh ts t now)) ops2)"
  proof
    assume ok: "fst (refresh ts t now) = Inr p"
    have "terminal (snd (refresh ts t now)) t"
      by (rule refresh_success_terminal [OF wf ok])
    then have "terminal (run_ts (snd (refresh ts t now)) ops2) t"
      by (rule terminal_run [OF ts_wf_refresh [OF wf]])
    then show "refresh (run_ts (snd (refresh ts t now)) ops2) t now'
              = (Inl Unauthorized, run_ts (snd (refresh ts t now)) ops2)"
      by (rule refresh_terminal)
  qed
  have revoked: "refresh_table ts t = Some e \<longrightarrow>
            refresh (run_ts (revoke ts (re_user e)) ops2) t now'
              = (Inl Unauthorized, run_ts (revoke ts (re_user e)) ops2)"
  proof
    assume known: "refresh_table ts t = Some e"
    have "terminal (revoke ts (re_user e)) t"
      by (rule revoke_makes_terminal [OF known])
    then have "terminal (run_ts (revoke ts (re_user e)) ops2) t"
      by (rule terminal_run [OF ts_wf_revoke [OF wf]])
    then show "refresh (run_ts (revoke ts (re_user e)) ops2) t now'
              = (Inl Unauthorized, run_ts (revoke ts (re_user e)) ops2)"
      by (rule refresh_terminal)
  qed
  have stays: "terminal ts t \<longrightarrow>
            terminal (ts_step ts x) t \<and> refresh ts t now = (Inl Unauthorized, ts)"
    using terminal_step [OF wf] refresh_terminal by blast
  from rotated revoked stays show ?thesis by blast
qed

lemma ts1_table:
  "refresh_table ts1 0 = Some \<lparr>re_user = 1, re_status = Active, re_expiry = 100\<rparr>"
  by (simp add: ts1_def ts_init_def issue_def)

lemma ts1_refresh: "fst (refresh ts1 0 1) = Inr pair1"
  by (simp add: ts1_def ts_init_def issue_def refresh_def pair1_def)

theorem refresh_token_single_use_witness:
  "ts1 = run_ts (ts_init 10 100) [Issue 1 0]
   \<and> fst (refresh ts1 0 1) = Inr pair1
   \<and> refresh (run_ts (snd (refresh ts1 0 1)) [Issue 2 5, Refresh 1 6]) 0 7
       = (Inl Unauthorized, run_ts (snd (refresh ts1 0 1)) [Issue 2 5, Refresh 1 6])
   \<and> refresh_table ts1 0 = Some \<lparr>re_user = 1, re_status = Active, re_expiry = 100\<rparr>
   \<and> refresh (run_ts (revoke ts1 1) [Issue 2 5]) 0 7
       = (Inl Unauthorized, run_ts (revoke ts1 1) [Issue 2 5])
   \<and> terminal (run_ts (ts_init 10 100) [Issue 1 0, Refresh 0 1]) 0
   \<and> terminal (ts_step (run_ts (ts_init 10 100) [Issue 1 0, Refresh 0 1]) (Issue 3 2)) 0"
proof -
  have t: "terminal (run_ts (ts_init 10 100) [Issue 1 0, Refresh 0 1]) 0"
    by (simp add: ts_init_def issue_def refresh_def terminal_def)
  show ?thesis
    using ts1_def ts1_refresh ts1_table t
      refresh_token_single_use [OF ts1_def, of 0 1 pair1 "[Issue 2 5, Refresh 1 6]" 7
        "\<lparr>re_user = 1, re_status = Active, re_expiry = 100\<rparr>" "Issue 3 2"]
      refresh_token_single_use [OF ts1_def, of 0 1 pair1 "[Issue 2 5]" 7
        "\<lparr>re_user = 1, re_status = Active, re_expiry = 100\<rparr>" "Issue 3 2"]
      refresh_token_single_use [OF refl, of 10 100 "[Issue 1 0, Refresh 0 1]" 0 1 pair1 "[]" 7
        "\<lparr>re_user = 1, re_status = Active, re_expiry = 100\<rparr>" "Issue 3 2"]
    by simp
qed

section \<open>Ratings\<close>

text \<open>The client submits the stars it is given; it has no range check of its own.\<close>

lemma rateMidi_submits_stars:
  "currentUser s \<noteq> None \<Longrightarrow>
     requests_of (snd (rateMidi i stars env s))
       = [fetchWithAuth s ''POST'' (MidiRate i) (StarsBody stars)]"
  by (auto simp add: rateMidi_def split: fetch_outcome.splits body.splits)

lemma rate_out_of_range:
  "stars < 1 \<or> 5 < stars \<Longrightarrow> rate c u i stars = (Inl InvalidInput, c)"
  by (simp add: rate_def)

lemma rate_in_range:
  assumes "1 \<le> stars" and "stars \<le> 5"
  shows "fst (rate c u i stars) = Inr (aggregate (ratings (snd (rate c u i stars))) i)
    \<and> map_of (ratings (snd (rate c u i stars))) = (map_of (ratings c))((u, i) \<mapsto> stars)
    \<and> snd (rate c u i stars) = c\<lparr>ratings := ratings (snd (rate c u i stars))\<rparr>"
  using assms by (simp add: rate_def Let_def update_conv')

text \<open>
  C8. \<open>rate\<close> with stars outside \<open>[1,5]\<close> fails with \<open>InvalidInput\<close> and stores nothing
  (the state is returned as it was). With stars in \<open>[1,5]\<close> the rating is accepted as an
  upsert: afterwards the pair (user, item) maps to the new stars, every other pair is as
  before, nothing but the ratings changes, and the result is the recomputed aggregate.
\<close>

theorem rate_validates_stars:
  "(stars < 1 \<or> 5 < stars \<longrightarrow> rate c u i stars = (Inl InvalidInput, c))
   \<and> (1 \<le> stars \<and> stars \<le> 5 \<longrightarrow>
        fst (rate c u i stars) = Inr (aggregate (ratings (snd (rate c u i stars))) i)
        \<and> map_of (ratings (snd (rate c u i stars))) = (map_of (ratings c))((u, i) \<mapsto> stars)
        \<and> snd (rate c u i stars) = c\<lparr>ratings := ratings (snd (rate c u i stars))\<rparr>)"
  using rate_out_of_range [of stars c u i] rate_in_range [of stars c u i] by blast

theorem rate_validates_stars_witness:
  "(5::int) < 6
   \<and> rate core0 1 2 6 = (Inl InvalidInput, core0)
   \<and> (0::int) < 1
   \<and> rate core0 1 2 0 = (Inl InvalidInput, core0)
   \<and> (1::int) \<le> 3 \<and> (3::int) \<le> 5
   \<and> fst (rate core0 1 2 3) = Inr (3, 1)
   \<and> map_of (ratings (snd (rate core0 1 2 3))) (1, 2) = Some 3
   \<and> fst (rate (snd (rate core0 1 2 3)) 1 2 5) = Inr (5, 1)"
proof -
  have agg: "aggregate (ratings (snd (rate core0 1 2 3))) 2 = (3, 1)"
    by (simp add: rate_def core0_def aggregate_def)
  have again: "fst (rate (snd (rate core0 1 2 3)) 1 2 5) = Inr (5, 1)"
    by (simp add: rate_def core0_def aggregate_def)
  show ?thesis
    using agg again
      rate_validates_stars [of 6 core0 1 2]
      rate_validates_stars [of 0 core0 1 2]
      rate_validates_stars [of 3 core0 1 2]
    by simp
qed

section \<open>Comments\<close>

lemma trim_replicate: "\<not> is_space ch \<Longrightarrow> trim (replicate n ch) = replicate n ch"
  by (simp add: trim_def)

lemma addComment_state: "fst (addComment i v env s) = s"
  by (simp add: addComment_def Let_def split: fetch_outcome.splits body.splits)

lemma addComment_blank:
  "trim v = [] \<Longrightarrow> addComment i v env s = (s, v, [PreventDefault])"
  by (simp add: addComment_def)

lemma addComment_request:
  "trim v \<noteq> [] \<Longrightarrow>
     requests_of (snd (snd (addComment i v env s))) = [comment_request s i (trim v)]"
  by (simp add: addComment_def Let_def split: fetch_outcome.splits body.splits)

lemma comment_request_body: "req_body (comment_request s i t) = ContentBody t"
  by (simp add: comment_request_def fetchWithAuth_def)

lemma comment_rejected:
  "trim v = [] \<or> max_length < length (trim v) \<Longrightarrow>
     comment max_length reward c u i v now = (Inl InvalidInput, c)"
  by (auto simp add: comment_def)

lemma comment_accepted:
  assumes "trim v \<noteq> []" and "length (trim v) \<le> max_length"
  shows "fst (comment max_length reward c u i v now)
     = Inr \<lparr>pc_item = i, pc_author = u, pc_content = trim v, pc_created = now\<rparr>"
  using assms by (simp add: comment_def Let_def)

text \<open>
  C7. The content of a comment is trimmed before use. The client trims the input: when
  nothing is left it returns without a request and without any change (no comment, no
  reward), and otherwise the request it sends carries the trimmed content. The server's
  \<open>comment\<close> operation trims as well and fails with \<open>InvalidInput\<close>, leaving the state as
  it was, when the trimmed content is empty or longer than the maximum length; a content
  within the bounds is stored trimmed.
\<close>

theorem comment_content_validated:
  "fst (addComment i v env s) = s
   \<and> (trim v = [] \<longrightarrow>
        addComment i v env s = (s, v, [PreventDefault])
        \<and> requests_of (snd (snd (addComment i v env s))) = [])
   \<and> (trim v \<noteq> [] \<longrightarrow>
        requests_of (snd (snd (addComment i v env s))) = [comment_request s i (trim v)]
        \<and> req_body (comment_request s i (trim v)) = ContentBody (trim v))
   \<and> (trim v = [] \<or> max_length < length (trim v) \<longrightarrow>
        comment max_length reward c u i v now = (Inl InvalidInput, c))
   \<and> (trim v \<noteq> [] \<and> length (trim v) \<le> max_length \<longrightarrow>
        fst (comment max_length reward c u i v now)
          = Inr \<lparr>pc_item = i, pc_author = u, pc_content = trim v, pc_created = now\<rparr>)"
  using addComment_state [of i v env s] addComment_blank [of v i env s]
    addComment_request [of v i env s] comment_request_body [of s i "trim v"]
    comment_rejected [of v max_length reward c u i now]
    comment_accepted [of v max_length reward c u i now]
  by simp

theorem comment_content_validated_witness:
  "trim [0x20, 0x09] = []
   \<and> addComment 2 [0x20, 0x09] NetworkError session0 = (session0, [0x20, 0x09], [PreventDefault])
   \<and> comment 2000 1 core0 1 2 [0x20, 0x09] 9 = (Inl InvalidInput, core0)
   \<and> 2000 < length (trim (replicate 2001 0x61))
   \<and> comment 2000 1 core0 1 2 (replicate 2001 0x61) 9 = (Inl InvalidInput, core0)
   \<and> trim [0x20, 0x68, 0x69, 0x0A] = [0x68, 0x69]
   \<and> requests_of (snd (snd (addComment 2 [0x20, 0x68, 0x69, 0x0A] NetworkError session0)))
       = [comment_request session0 2 [0x68, 0x69]]
   \<and> fst (comment 2000 1 core0 1 2 [0x20, 0x68, 0x69, 0x0A] 9)
       = Inr \<lparr>pc_item = 2, pc_author = 1, pc_content = [0x68, 0x69], pc_created = 9\<rparr>"
proof -
  have blank: "trim [0x20, 0x09] = []"
    by (simp add: trim_def is_space_def js_whitespace_def)
  have long: "trim (replicate 2001 0x61) = replicate 2001 0x61"
    by (rule trim_replicate) (simp add: is_space_def js_whitespace_def)
  have hi: "trim [0x20, 0x68, 0x69, 0x0A] = [0x68, 0x69]"
    by (simp add: trim_def is_space_def js_whitespace_def)
  show ?thesis
    using blank long hi
      comment_content_validated [of 2 "[0x20, 0x09]" NetworkError session0 2000 1 core0 1 9]
      comment_content_validated [of 2 "replicate 2001 0x61" NetworkError session0 2000 1 core0 1 9]
      comment_content_validated
        [of 2 "[0x20, 0x68, 0x69, 0x0A]" NetworkError session0 2000 1 core0 1 9]
    by simp
qed

end
